theory Spec2Isabelle
  imports Complex_Main "HOL-Library.Word"
begin

section \<open>The data module of AvoidRickshaw (src/data.c)\<close>

text \<open>
  The module keeps one process-wide struct \<open>s_info\<close> and mutates it from the two sensor
  callbacks and from the start/stop entry points. The embedding passes that struct
  explicitly. Conventions:
  \<^item> a C \<open>double\<close> is a \<open>real\<close>: exact arithmetic, no rounding, no NaN and no infinity;
  \<^item> a C \<open>int\<close> is a \<open>32 word\<close>, read as two's complement with \<open>sint\<close>; \<open>++\<close> wraps;
  \<^item> a pointer or handle is a \<open>bool\<close>: \<open>True\<close> when it is not \<open>NULL\<close>;
  \<^item> what the platform answers (return codes, the distance between two coordinates, the
    clock, the stored weight, the narrowing conversions) is not code of the module: it is
    read from a \<open>platform\<close> record given to each call;
  \<^item> a call through a callback pointer and a call into the database helper is an
    \<open>effect\<close>; each function returns the effects it produced, in order;
  \<^item> a call through a \<open>NULL\<close> callback pointer that the code does not check is the fault
    \<open>NullCallback\<close>;
  \<^item> \<open>dlog_print\<close> calls are left out;
  \<^item> a function keeps its C name, without the leading underscore of the static ones.
\<close>

subsection \<open>Constants\<close>

definition TRESHOLD :: real where
  "TRESHOLD = 0.2"

definition MAX_ACCEL_INIT_VALUE :: real where
  "MAX_ACCEL_INIT_VALUE = 1000"

definition DOUBLE_COMPARIZON_THRESHOLD :: real where
  "DOUBLE_COMPARIZON_THRESHOLD = 0.0001"

text \<open>\<open>DBL_MAX\<close> of float.h for IEEE binary64: \<open>(2 - 2^-52) * 2^1023\<close>.\<close>

definition DBL_MAX :: real where
  "DBL_MAX = (2 ^ 53 - 1) * 2 ^ 971"

definition LAT_UNINITIATED :: real where
  "LAT_UNINITIATED = DBL_MAX"

definition LONG_UNINITIATED :: real where
  "LONG_UNINITIATED = DBL_MAX"

subsection \<open>State, platform and effects\<close>

type_synonym c_int = "32 word"

record data_info =
  location_manager :: bool
  total_distance :: real
  prev_latitude :: real
  prev_longitude :: real
  position_changed_callback :: bool
  steps_count_changed_callback :: bool
  fare_count_changed_callback :: bool
  calorie_count_changed_callback :: bool
  acceleration_listener :: bool
  prev_acc_av :: real
  init_acc_av :: real
  steps_count :: c_int
  start_time :: real
  calories :: real

text \<open>The initializer of \<open>s_info\<close>.\<close>

definition s_info :: data_info where
  "s_info = \<lparr> location_manager = False,
      total_distance = 0,
      prev_latitude = LAT_UNINITIATED,
      prev_longitude = LONG_UNINITIATED,
      position_changed_callback = False,
      steps_count_changed_callback = False,
      fare_count_changed_callback = False,
      calorie_count_changed_callback = False,
      acceleration_listener = False,
      prev_acc_av = MAX_ACCEL_INIT_VALUE,
      init_acc_av = MAX_ACCEL_INIT_VALUE,
      steps_count = 0,
      start_time = 0,
      calories = 0 \<rparr>"

text \<open>
  What the platform answers during one call of the module. The boolean fields say whether
  the named platform call returned its success code. \<open>location_manager_get_distance\<close>
  takes the four coordinates in the order of the C call and gives \<open>None\<close> for an error
  code. \<open>double_to_float\<close> is the narrowing \<open>(float)\<close> cast. \<open>int_out_of_range\<close> is what the
  conversion of a \<open>double\<close> to \<open>int\<close> yields when the truncated value does not fit 32 bits,
  where C leaves the result open.
\<close>

record platform =
  gps_status_ok :: bool
  gps_enabled :: bool
  lm_create_ok :: bool
  lm_set_cb_ok :: bool
  sensor_supported :: bool
  sensor_default_ok :: bool
  listener_create_ok :: bool
  listener_set_cb_ok :: bool
  listener_stop_ok :: bool
  location_manager_get_distance :: "real \<Rightarrow> real \<Rightarrow> real \<Rightarrow> real \<Rightarrow> real option"
  ecore_time_get :: real
  preference_weight :: "real option"
  double_to_float :: "real \<Rightarrow> real"
  int_out_of_range :: "real \<Rightarrow> c_int"

datatype effect =
    PositionChanged real
  | StepsCountChanged c_int
  | FareCountChanged c_int
  | CalorieCountChanged real
  | InitDb
  | InsertIntoDb real c_int real c_int
  | GetAllMsgFromDb

datatype fault = NullCallback

type_synonym outcome = "fault + data_info \<times> effect list"

subsection \<open>Conversions\<close>

text \<open>
  Assigning a \<open>double\<close> to an \<open>int\<close> drops the fraction (towards zero). When the result
  does not fit, the platform decides.
\<close>

definition truncate_double :: "real \<Rightarrow> int" where
  "truncate_double r = (if r < 0 then \<lceil>r\<rceil> else \<lfloor>r\<rfloor>)"

definition double_to_int :: "platform \<Rightarrow> real \<Rightarrow> c_int" where
  "double_to_int p r =
     (if - (2 ^ 31) \<le> truncate_double r \<and> truncate_double r < 2 ^ 31
      then word_of_int (truncate_double r)
      else int_out_of_range p r)"

subsection \<open>Fare and calories\<close>

text \<open>The value \<open>count_fare\<close> assigns to its local \<open>fare\<close>.\<close>

definition fare_amount :: "platform \<Rightarrow> real \<Rightarrow> c_int" where
  "fare_amount p d =
     (let baseFare = 10 :: real;
          farePerUnitDistance = 5 :: real;
          baseDistance = 1 :: real
      in if d > 1000
         then double_to_int p (baseFare + ((d / 1000) - baseDistance) * farePerUnitDistance)
         else 0)"

definition count_fare :: "platform \<Rightarrow> data_info \<Rightarrow> fault + c_int \<times> effect list" where
  "count_fare p s =
     (let fare = fare_amount p (total_distance s)
      in if fare_count_changed_callback s
         then Inr (fare, [FareCountChanged fare])
         else Inl NullCallback)"

definition calorieBurner :: "platform \<Rightarrow> data_info \<Rightarrow> outcome" where
  "calorieBurner p s =
     (let tempDistance = total_distance s / 1000;
          weight = (case preference_weight p of Some w \<Rightarrow> w | None \<Rightarrow> 70);
          elapsedTime = (ecore_time_get p - start_time s) / 3600;
          s1 = s\<lparr>calories := 0.0215 * tempDistance * tempDistance * tempDistance
                   - 0.1765 * tempDistance * tempDistance + 0.8710 * tempDistance
                   + 1.4577 * weight * elapsedTime\<rparr>
      in if calorie_count_changed_callback s1
         then Inr (s1, [CalorieCountChanged (calories s1)])
         else Inl NullCallback)"

subsection \<open>The position callback\<close>

definition position_uninitiated :: "data_info \<Rightarrow> bool" where
  "position_uninitiated s \<longleftrightarrow>
     \<bar>prev_latitude s - LAT_UNINITIATED\<bar> < DOUBLE_COMPARIZON_THRESHOLD \<and>
     \<bar>prev_longitude s - LONG_UNINITIATED\<bar> < DOUBLE_COMPARIZON_THRESHOLD"

definition pos_updated_cb :: "platform \<Rightarrow> real \<Rightarrow> real \<Rightarrow> data_info \<Rightarrow> outcome" where
  "pos_updated_cb p latitude longitude s =
     (if position_uninitiated s
      then Inr (s\<lparr>prev_latitude := latitude, prev_longitude := longitude\<rparr>, [])
      else
        (case location_manager_get_distance p latitude longitude
                (prev_latitude s) (prev_longitude s) of
           None \<Rightarrow> Inr (s, [])
         | Some distance \<Rightarrow>
             (let s1 = s\<lparr>total_distance := total_distance s + distance,
                         prev_latitude := latitude,
                         prev_longitude := longitude\<rparr>;
                  out1 = (if position_changed_callback s1
                          then [PositionChanged (total_distance s1)] else [])
              in case count_fare p s1 of
                   Inl f \<Rightarrow> Inl f
                 | Inr (fare, out2) \<Rightarrow>
                     (case calorieBurner p s1 of
                        Inl f \<Rightarrow> Inl f
                      | Inr (s2, out3) \<Rightarrow> Inr (s2, out1 @ out2 @ out3)))))"

subsection \<open>The acceleration callback\<close>

definition current_average :: "real \<Rightarrow> real \<Rightarrow> real \<Rightarrow> real" where
  "current_average x y z = (\<bar>x\<bar> + \<bar>y\<bar> + \<bar>z\<bar>) / 3"

definition accel_uninitiated :: "data_info \<Rightarrow> bool" where
  "accel_uninitiated s \<longleftrightarrow>
     \<bar>init_acc_av s - MAX_ACCEL_INIT_VALUE\<bar> < DOUBLE_COMPARIZON_THRESHOLD"

definition accel_cb :: "real \<Rightarrow> real \<Rightarrow> real \<Rightarrow> data_info \<Rightarrow> data_info \<times> effect list" where
  "accel_cb x y z s =
     (let current_acc_av = current_average x y z
      in if accel_uninitiated s
         then (s\<lparr>init_acc_av := current_acc_av, prev_acc_av := current_acc_av\<rparr>, [])
         else if prev_acc_av s > init_acc_av s \<and> init_acc_av s - current_acc_av > TRESHOLD
         then (s\<lparr>steps_count := steps_count s + 1, prev_acc_av := current_acc_av\<rparr>,
               if steps_count_changed_callback s
               then [StepsCountChanged (steps_count s + 1)] else [])
         else (s\<lparr>prev_acc_av := current_acc_av\<rparr>, []))"

subsection \<open>The location manager\<close>

text \<open>
  \<open>_data_distance_tracker_init\<close>: the handle is written when the manager is created. When
  the callback cannot be registered the manager is destroyed, and the handle keeps its
  value: \<open>_data_distance_tracker_destroy\<close> does not clear it.
\<close>

definition data_distance_tracker_destroy :: "data_info \<Rightarrow> data_info" where
  "data_distance_tracker_destroy s = (if \<not> location_manager s then s else s)"

definition data_distance_tracker_init :: "platform \<Rightarrow> data_info \<Rightarrow> bool \<times> data_info" where
  "data_distance_tracker_init p s =
     (if \<not> lm_create_ok p then (False, s)
      else
        (let s1 = s\<lparr>location_manager := True\<rparr>
         in if \<not> lm_set_cb_ok p then (False, data_distance_tracker_destroy s1)
            else (True, s1)))"

definition data_distance_tracker_start :: "platform \<Rightarrow> data_info \<Rightarrow> data_info" where
  "data_distance_tracker_start p s =
     (if location_manager s then s
      else snd (data_distance_tracker_init p s))"

subsection \<open>Saving a session\<close>

text \<open>
  \<open>_data_save_db\<close>: the fare is counted (and its observer called) first, then the database
  is opened, and the row is inserted only behind the guard on steps and distance. The loop
  that follows the insertion only logs the rows read back.
\<close>

definition data_save_db :: "platform \<Rightarrow> data_info \<Rightarrow> outcome" where
  "data_save_db p s =
     (case count_fare p s of
        Inl f \<Rightarrow> Inl f
      | Inr (temp, out1) \<Rightarrow>
          (let distance = double_to_float p (total_distance s);
               fare = temp;
               steps = steps_count s;
               cal = double_to_float p (calories s)
           in if 0 < sint steps \<and> distance > 0
              then Inr (s, out1 @ [InitDb, InsertIntoDb distance steps cal fare, GetAllMsgFromDb])
              else Inr (s, out1 @ [InitDb])))"

definition data_distance_tracker_stop :: "platform \<Rightarrow> data_info \<Rightarrow> outcome" where
  "data_distance_tracker_stop p s =
     (if \<not> location_manager s then Inr (s, [])
      else
        (case data_save_db p s of
           Inl f \<Rightarrow> Inl f
         | Inr (s1, out) \<Rightarrow>
             Inr (s1\<lparr>total_distance := 0, steps_count := 0, calories := 0\<rparr>, out)))"

subsection \<open>The acceleration sensor\<close>

definition data_acceleration_sensor_init_handle :: "platform \<Rightarrow> data_info \<Rightarrow> bool \<times> data_info" where
  "data_acceleration_sensor_init_handle p s =
     (if \<not> sensor_supported p then (False, s)
      else if \<not> sensor_default_ok p then (False, s)
      else if \<not> listener_create_ok p then (False, s)
      else if \<not> listener_set_cb_ok p then (False, s\<lparr>acceleration_listener := False\<rparr>)
      else (True, s\<lparr>acceleration_listener := True\<rparr>))"

definition data_acceleration_sensor_start :: "data_info \<Rightarrow> data_info" where
  "data_acceleration_sensor_start s = (if \<not> acceleration_listener s then s else s)"

definition data_acceleration_sensor_stop :: "platform \<Rightarrow> data_info \<Rightarrow> data_info" where
  "data_acceleration_sensor_stop p s =
     (if \<not> acceleration_listener s then s
      else if \<not> listener_stop_ok p then s
      else s\<lparr>init_acc_av := MAX_ACCEL_INIT_VALUE, prev_acc_av := MAX_ACCEL_INIT_VALUE\<rparr>)"

subsection \<open>Entry points\<close>

definition data_gps_enabled_get :: "platform \<Rightarrow> bool" where
  "data_gps_enabled_get p =
     (if \<not> gps_status_ok p then False
      else if \<not> gps_enabled p then False
      else True)"

definition data_initialize :: "platform \<Rightarrow> data_info \<Rightarrow> bool \<times> data_info" where
  "data_initialize p s =
     (let s1 = (if data_gps_enabled_get p then snd (data_distance_tracker_init p s) else s)
      in data_acceleration_sensor_init_handle p s1)"

text \<open>
  \<open>data_tracking_start\<close> calls the three observers without a check of the pointers, in the
  order steps, distance, fare.
\<close>

definition data_tracking_start :: "platform \<Rightarrow> data_info \<Rightarrow> outcome" where
  "data_tracking_start p s =
     (let s1 = data_distance_tracker_start p s;
          s2 = data_acceleration_sensor_start s1;
          s3 = s2\<lparr>start_time := ecore_time_get p\<rparr>
      in if steps_count s3 = 0
         then
           (if \<not> steps_count_changed_callback s3 then Inl NullCallback
            else if \<not> position_changed_callback s3 then Inl NullCallback
            else if \<not> fare_count_changed_callback s3 then Inl NullCallback
            else Inr (s3, [StepsCountChanged (steps_count s3),
                           PositionChanged (total_distance s3),
                           FareCountChanged 0]))
         else Inr (s3, []))"

definition data_tracking_stop :: "platform \<Rightarrow> data_info \<Rightarrow> outcome" where
  "data_tracking_stop p s =
     (case data_distance_tracker_stop p s of
        Inl f \<Rightarrow> Inl f
      | Inr (s1, out) \<Rightarrow> Inr (data_acceleration_sensor_stop p s1, out))"

definition data_set_position_changed_callback :: "bool \<Rightarrow> data_info \<Rightarrow> data_info" where
  "data_set_position_changed_callback cb s = s\<lparr>position_changed_callback := cb\<rparr>"

definition data_set_steps_count_changed_callback :: "bool \<Rightarrow> data_info \<Rightarrow> data_info" where
  "data_set_steps_count_changed_callback cb s = s\<lparr>steps_count_changed_callback := cb\<rparr>"

definition data_set_fare_changed_callback :: "bool \<Rightarrow> data_info \<Rightarrow> data_info" where
  "data_set_fare_changed_callback cb s = s\<lparr>fare_count_changed_callback := cb\<rparr>"

definition data_set_calorie_changed_callback :: "bool \<Rightarrow> data_info \<Rightarrow> data_info" where
  "data_set_calorie_changed_callback cb s = s\<lparr>calorie_count_changed_callback := cb\<rparr>"

subsection \<open>The event loop\<close>

text \<open>
  Everything runs on one event loop: the application calls the entry points, and the
  platform calls the two callbacks. \<open>_pos_updated_cb\<close> is registered on the location
  manager and \<open>_accel_cb\<close> on the sensor listener, so the platform has nothing to call
  while the handle is \<open>NULL\<close>. Each event comes with the platform's answers during it.
\<close>

datatype event =
    Initialize
  | SetPositionChangedCallback bool
  | SetStepsCountChangedCallback bool
  | SetFareChangedCallback bool
  | SetCalorieChangedCallback bool
  | TrackingStart
  | TrackingStop
  | PositionUpdated real real
  | AccelerationSample real real real

fun dispatch :: "platform \<Rightarrow> event \<Rightarrow> data_info \<Rightarrow> outcome" where
  "dispatch p Initialize s = Inr (snd (data_initialize p s), [])"
| "dispatch p (SetPositionChangedCallback cb) s =
     Inr (data_set_position_changed_callback cb s, [])"
| "dispatch p (SetStepsCountChangedCallback cb) s =
     Inr (data_set_steps_count_changed_callback cb s, [])"
| "dispatch p (SetFareChangedCallback cb) s = Inr (data_set_fare_changed_callback cb s, [])"
| "dispatch p (SetCalorieChangedCallback cb) s =
     Inr (data_set_calorie_changed_callback cb s, [])"
| "dispatch p TrackingStart s = data_tracking_start p s"
| "dispatch p TrackingStop s = data_tracking_stop p s"
| "dispatch p (PositionUpdated latitude longitude) s =
     (if location_manager s then pos_updated_cb p latitude longitude s else Inr (s, []))"
| "dispatch p (AccelerationSample x y z) s =
     (if acceleration_listener s then Inr (accel_cb x y z s) else Inr (s, []))"

fun run :: "(platform \<times> event) list \<Rightarrow> data_info \<Rightarrow> outcome" where
  "run [] s = Inr (s, [])"
| "run ((p, e) # rest) s =
     (case dispatch p e s of
        Inl f \<Rightarrow> Inl f
      | Inr (s1, out1) \<Rightarrow>
          (case run rest s1 of
             Inl f \<Rightarrow> Inl f
           | Inr (s2, out2) \<Rightarrow> Inr (s2, out1 @ out2)))"

definition final_state :: "outcome \<Rightarrow> data_info option" where
  "final_state r = (case r of Inl f \<Rightarrow> None | Inr (s, out) \<Rightarrow> Some s)"

definition emitted :: "outcome \<Rightarrow> effect list option" where
  "emitted r = (case r of Inl f \<Rightarrow> None | Inr (s, out) \<Rightarrow> Some out)"

section \<open>Notions of the specification\<close>

text \<open>A session record is written when \<open>insertIntoDb\<close> is called.\<close>

fun is_insert :: "effect \<Rightarrow> bool" where
  "is_insert (InsertIntoDb distance steps cal fare) = True"
| "is_insert e = False"





text \<open>
  Two properties of the states the event loop reaches: without a location manager no
  distance has been accumulated, and a baseline that still reads as unset has the previous
  average equal to it.
\<close>

definition manager_or_no_distance :: "data_info \<Rightarrow> bool" where
  "manager_or_no_distance s \<longleftrightarrow> location_manager s \<or> total_distance s = 0"

definition baseline_consistent :: "data_info \<Rightarrow> bool" where
  "baseline_consistent s \<longleftrightarrow> (accel_uninitiated s \<longrightarrow> prev_acc_av s = init_acc_av s)"

section \<open>Example platforms and event sequences\<close>

text \<open>
  A platform on which every call succeeds: the distance is taken on a square grid with
  1000 m per degree, the clock stands at 0, no weight is stored, the narrowing to
  \<open>float\<close> is exact and an out-of-range conversion to \<open>int\<close> saturates. The variants
  have no location manager to create, or fail to compute a distance.
\<close>

definition grid_distance :: "real \<Rightarrow> real \<Rightarrow> real \<Rightarrow> real \<Rightarrow> real option" where
  "grid_distance lat lon plat plon = Some (1000 * (\<bar>lat - plat\<bar> + \<bar>lon - plon\<bar>))"

definition no_distance :: "real \<Rightarrow> real \<Rightarrow> real \<Rightarrow> real \<Rightarrow> real option" where
  "no_distance lat lon plat plon = None"

definition saturate :: "real \<Rightarrow> c_int" where
  "saturate r = (if r < 0 then - (2 ^ 31) else 2 ^ 31 - 1)"

definition exact_float :: "real \<Rightarrow> real" where
  "exact_float r = r"

definition device :: platform where
  "device = \<lparr> gps_status_ok = True, gps_enabled = True, lm_create_ok = True,
      lm_set_cb_ok = True, sensor_supported = True, sensor_default_ok = True,
      listener_create_ok = True, listener_set_cb_ok = True, listener_stop_ok = True,
      location_manager_get_distance = grid_distance, ecore_time_get = 0,
      preference_weight = None, double_to_float = exact_float,
      int_out_of_range = saturate \<rparr>"

definition device_without_gps :: platform where
  "device_without_gps = device\<lparr>gps_enabled := False, lm_create_ok := False\<rparr>"

definition device_distance_error :: platform where
  "device_distance_error = device\<lparr>location_manager_get_distance := no_distance\<rparr>"

text \<open>
  The application attaches its four observers and initializes the module before the user
  can press a button.
\<close>

definition app_create :: "platform \<Rightarrow> (platform \<times> event) list" where
  "app_create p = [(p, SetPositionChangedCallback True),
     (p, SetStepsCountChangedCallback True),
     (p, SetFareChangedCallback True),
     (p, SetCalorieChangedCallback True),
     (p, Initialize)]"

definition first_start :: "(platform \<times> event) list" where
  "first_start = app_create device @ [(device, TrackingStart)]"

definition first_fix :: "(platform \<times> event) list" where
  "first_fix = app_create device @ [(device, TrackingStart), (device, PositionUpdated 0 0)]"

definition second_session_start :: "(platform \<times> event) list" where
  "second_session_start = app_create device @
     [(device, TrackingStart), (device, PositionUpdated 0 0), (device, TrackingStop),
      (device, TrackingStart)]"

definition second_session_first_fix :: "(platform \<times> event) list" where
  "second_session_first_fix = second_session_start @ [(device, PositionUpdated 0 2)]"

definition walk_without_gps :: "(platform \<times> event) list" where
  "walk_without_gps = app_create device_without_gps @
     [(device_without_gps, TrackingStart),
      (device_without_gps, AccelerationSample 1 1 1),
      (device_without_gps, AccelerationSample 2 2 2),
      (device_without_gps, AccelerationSample 0.5 0.5 0.5),
      (device_without_gps, TrackingStop)]"

definition route_with_failed_fix :: "(platform \<times> event) list" where
  "route_with_failed_fix = app_create device @
     [(device, TrackingStart), (device, PositionUpdated 0 0),
      (device_distance_error, PositionUpdated 3 4), (device, PositionUpdated 0 8)]"

definition ride_without_steps :: "(platform \<times> event) list" where
  "ride_without_steps = app_create device @
     [(device, TrackingStart), (device, PositionUpdated 0 0), (device, PositionUpdated 0 1)]"

definition sample_at_sentinel :: "(platform \<times> event) list" where
  "sample_at_sentinel = app_create device @
     [(device, TrackingStart), (device, AccelerationSample 9 9 9),
      (device, AccelerationSample 1000 1000 1000)]"

definition walk_and_ride :: "(platform \<times> event) list" where
  "walk_and_ride = app_create device @
     [(device, TrackingStart),
      (device, AccelerationSample 1 1 1),
      (device, AccelerationSample 2 2 2),
      (device, AccelerationSample 0.5 0.5 0.5),
      (device, PositionUpdated 0 0), (device, PositionUpdated 0 2)]"

text \<open>
  States of the examples: \<open>ready\<close> after the first start, \<open>at_origin\<close> after the first fix,
  \<open>walking\<close> with a seeded baseline and a raised previous average, \<open>last_step\<close> one step
  below the largest \<open>int\<close>, and the states the last two sequences end in.
\<close>

definition ready :: data_info where
  "ready = s_info\<lparr>location_manager := True,
     position_changed_callback := True, steps_count_changed_callback := True,
     fare_count_changed_callback := True, calorie_count_changed_callback := True,
     acceleration_listener := True\<rparr>"

definition at_origin :: data_info where
  "at_origin = ready\<lparr>prev_latitude := 0, prev_longitude := 0\<rparr>"

definition walking :: data_info where
  "walking = at_origin\<lparr>init_acc_av := 1, prev_acc_av := 2\<rparr>"

definition last_step :: data_info where
  "last_step = s_info\<lparr>acceleration_listener := True, init_acc_av := 2, prev_acc_av := 3,
     steps_count := 2147483647\<rparr>"

definition walked_and_rode :: data_info where
  "walked_and_rode = \<lparr> location_manager = True, total_distance = 2000, prev_latitude = 0,
      prev_longitude = 2, position_changed_callback = True,
      steps_count_changed_callback = True, fare_count_changed_callback = True,
      calorie_count_changed_callback = True, acceleration_listener = True,
      prev_acc_av = 0.5, init_acc_av = 1, steps_count = 1, start_time = 0,
      calories = 1.208 \<rparr>"

definition rode_without_steps :: data_info where
  "rode_without_steps = \<lparr> location_manager = True, total_distance = 1000, prev_latitude = 0,
      prev_longitude = 1, position_changed_callback = True,
      steps_count_changed_callback = True, fare_count_changed_callback = True,
      calorie_count_changed_callback = True, acceleration_listener = True,
      prev_acc_av = 1000, init_acc_av = 1000, steps_count = 0, start_time = 0,
      calories = 0.716 \<rparr>"

definition three_fixes :: "(platform \<times> real \<times> real) list" where
  "three_fixes = [(device, 0, 0), (device, 3, 4), (device, 0, 8)]"

section \<open>Evaluation\<close>

lemmas scenario_defs = second_session_start_def second_session_first_fix_def
  walk_without_gps_def route_with_failed_fix_def ride_without_steps_def
  sample_at_sentinel_def walk_and_ride_def first_start_def first_fix_def ready_def at_origin_def walking_def last_step_def
  walked_and_rode_def rode_without_steps_def three_fixes_def
  app_create_def device_def device_without_gps_def device_distance_error_def
  grid_distance_def no_distance_def saturate_def exact_float_def

lemmas code_defs = s_info_def data_initialize_def data_gps_enabled_get_def
  data_distance_tracker_init_def data_distance_tracker_destroy_def
  data_acceleration_sensor_init_handle_def data_tracking_start_def data_tracking_stop_def
  data_distance_tracker_start_def data_acceleration_sensor_start_def
  data_distance_tracker_stop_def data_acceleration_sensor_stop_def data_save_db_def
  count_fare_def fare_amount_def double_to_int_def truncate_double_def calorieBurner_def
  pos_updated_cb_def position_uninitiated_def accel_cb_def accel_uninitiated_def
  current_average_def data_set_position_changed_callback_def
  data_set_steps_count_changed_callback_def data_set_fare_changed_callback_def
  data_set_calorie_changed_callback_def
  TRESHOLD_def MAX_ACCEL_INIT_VALUE_def DOUBLE_COMPARIZON_THRESHOLD_def DBL_MAX_def
  LAT_UNINITIATED_def LONG_UNINITIATED_def final_state_def emitted_def

text \<open>The example states are states the event loop reaches from \<open>s_info\<close>.\<close>

lemma first_start_reaches: "final_state (run first_start s_info) = Some ready"
  by (simp add: scenario_defs code_defs)

lemma first_fix_reaches: "final_state (run first_fix s_info) = Some at_origin"
  by (simp add: scenario_defs code_defs)

lemma walk_and_ride_reaches: "final_state (run walk_and_ride s_info) = Some walked_and_rode"
  by (simp add: scenario_defs code_defs)

lemma ride_without_steps_reaches:
  "final_state (run ride_without_steps s_info) = Some rode_without_steps"
  by (simp add: scenario_defs code_defs)

section \<open>Properties of the code\<close>

subsection \<open>The position callback\<close>





subsection \<open>What every reachable state satisfies\<close>

lemma dispatch_manager_or_no_distance:
  assumes "manager_or_no_distance s" and "dispatch p e s = Inr (s', out)"
  shows "manager_or_no_distance s'"
proof (cases e)
  case Initialize
  with assms show ?thesis
    by (auto simp: manager_or_no_distance_def data_initialize_def
        data_distance_tracker_init_def data_distance_tracker_destroy_def
        data_acceleration_sensor_init_handle_def Let_def split: if_splits)
next
  case TrackingStart
  with assms show ?thesis
    by (auto simp: manager_or_no_distance_def data_tracking_start_def
        data_distance_tracker_start_def data_distance_tracker_init_def
        data_distance_tracker_destroy_def data_acceleration_sensor_start_def Let_def
        split: if_splits)
next
  case TrackingStop
  with assms show ?thesis
    by (auto simp: manager_or_no_distance_def data_tracking_stop_def
        data_distance_tracker_stop_def data_acceleration_sensor_stop_def
        split: if_splits sum.splits)
next
  case (PositionUpdated latitude longitude)
  with assms show ?thesis
    by (auto simp: manager_or_no_distance_def pos_updated_cb_def count_fare_def
        calorieBurner_def Let_def split: if_splits option.splits)
next
  case (AccelerationSample x y z)
  with assms show ?thesis
    by (auto simp: manager_or_no_distance_def accel_cb_def Let_def split: if_splits)
qed (use assms in \<open>auto simp: manager_or_no_distance_def
      data_set_position_changed_callback_def data_set_steps_count_changed_callback_def
      data_set_fare_changed_callback_def data_set_calorie_changed_callback_def\<close>)

lemma run_manager_or_no_distance:
  "manager_or_no_distance s \<Longrightarrow> run evs s = Inr (s', out) \<Longrightarrow> manager_or_no_distance s'"
proof (induction evs arbitrary: s out)
  case Nil
  then show ?case by simp
next
  case (Cons pe evs)
  obtain p e where pe: "pe = (p, e)" by (cases pe)
  from Cons.prems(2) pe obtain s1 out1 s2 out2 where
    d: "dispatch p e s = Inr (s1, out1)" and r: "run evs s1 = Inr (s2, out2)" and "s' = s2"
    by (auto split: sum.splits)
  from dispatch_manager_or_no_distance [OF Cons.prems(1) d] Cons.IH r \<open>s' = s2\<close>
  show ?case by blast
qed

lemma reachable_manager_or_no_distance:
  "run evs s_info = Inr (s, out) \<Longrightarrow> location_manager s \<or> total_distance s = 0"
  using run_manager_or_no_distance [of s_info evs s out]
  by (simp add: manager_or_no_distance_def s_info_def)

lemma dispatch_baseline_consistent:
  assumes "baseline_consistent s" and "dispatch p e s = Inr (s', out)"
  shows "baseline_consistent s'"
proof (cases e)
  case Initialize
  with assms show ?thesis
    by (auto simp: baseline_consistent_def accel_uninitiated_def data_initialize_def
        data_distance_tracker_init_def data_distance_tracker_destroy_def
        data_acceleration_sensor_init_handle_def Let_def split: if_splits)
next
  case TrackingStart
  with assms show ?thesis
    by (auto simp: baseline_consistent_def accel_uninitiated_def data_tracking_start_def
        data_distance_tracker_start_def data_distance_tracker_init_def
        data_distance_tracker_destroy_def data_acceleration_sensor_start_def Let_def
        split: if_splits)
next
  case TrackingStop
  with assms show ?thesis
    by (auto simp: baseline_consistent_def accel_uninitiated_def data_tracking_stop_def
        data_distance_tracker_stop_def data_acceleration_sensor_stop_def data_save_db_def
        Let_def split: if_splits sum.splits)
next
  case (PositionUpdated latitude longitude)
  with assms show ?thesis
    by (auto simp: baseline_consistent_def accel_uninitiated_def pos_updated_cb_def
        count_fare_def calorieBurner_def Let_def split: if_splits option.splits)
next
  case (AccelerationSample x y z)
  with assms show ?thesis
    by (auto simp: baseline_consistent_def accel_uninitiated_def accel_cb_def Let_def
        split: if_splits)
qed (use assms in \<open>auto simp: baseline_consistent_def accel_uninitiated_def
      data_set_position_changed_callback_def data_set_steps_count_changed_callback_def
      data_set_fare_changed_callback_def data_set_calorie_changed_callback_def\<close>)

lemma run_baseline_consistent:
  "baseline_consistent s \<Longrightarrow> run evs s = Inr (s', out) \<Longrightarrow> baseline_consistent s'"
proof (induction evs arbitrary: s out)
  case Nil
  then show ?case by simp
next
  case (Cons pe evs)
  obtain p e where pe: "pe = (p, e)" by (cases pe)
  from Cons.prems(2) pe obtain s1 out1 s2 out2 where
    d: "dispatch p e s = Inr (s1, out1)" and r: "run evs s1 = Inr (s2, out2)" and "s' = s2"
    by (auto split: sum.splits)
  from dispatch_baseline_consistent [OF Cons.prems(1) d] Cons.IH r \<open>s' = s2\<close>
  show ?case by blast
qed

lemma reachable_baseline_consistent:
  "run evs s_info = Inr (s, out) \<Longrightarrow> accel_uninitiated s \<longrightarrow> prev_acc_av s = init_acc_av s"
  using run_baseline_consistent [of s_info evs s out]
  by (simp add: baseline_consistent_def accel_uninitiated_def s_info_def)

subsection \<open>Integers of 32 bits\<close>


lemma sint_increment_32:
  "sint (w :: c_int) < 2147483647 \<Longrightarrow> sint (w + 1) = sint w + 1"
proof -
  assume a: "sint w < 2147483647"
  have b: "- (2 ^ 31) \<le> sint w" using sint_ge [of w] by simp
  have "sint (w + 1) = signed_take_bit 31 (sint w + 1)"
    by (simp add: sint_word_add)
  also have "\<dots> = sint w + 1"
    using a b by (simp add: signed_take_bit_int_eq_self)
  finally show ?thesis .
qed


subsection \<open>The fare\<close>




text \<open>
  Whatever the platform does with a value that does not fit, the fare is an \<open>int\<close>: it
  stays below \<open>2^31\<close>, and the formula does not from 429496728600 m on.
\<close>

lemma fare_amount_fits_int: "sint (fare_amount p d) < 2147483648"
  using sint_lt [of "fare_amount p d"] by simp

lemma fare_formula_exceeds_int:
  "429496728600 \<le> d \<Longrightarrow> sint (fare_amount p d) < 10 + \<lfloor>(d / 1000 - 1) * 5\<rfloor>"
proof -
  assume a: "429496728600 \<le> d"
  have "(2147483638::real) \<le> (d / 1000 - 1) * 5" using a by simp
  then have "2147483638 \<le> \<lfloor>(d / 1000 - 1) * 5\<rfloor>" by (simp add: le_floor_iff)
  with fare_amount_fits_int [of p d] show ?thesis by linarith
qed

section \<open>The claims\<close>

subsection \<open>C1: the first fix of a session\<close>

text \<open>
  C1. The first position fix after a start, or after the reset a stop triggers, should be a
  calibration call: it stores the coordinate and adds nothing to the distance. The code
  calibrates only while the previous position is unset (\<open>pos_updated_cb_calibrates\<close>), and
  \<open>_data_distance_tracker_stop\<close> resets the counters but not the previous position, unlike
  \<open>_data_acceleration_sensor_stop\<close>, which resets its baseline. So in a second session the
  first fix is measured against the last fix of the session before: after start, a fix at
  (0, 0), stop and start, the state has distance 0, previous position (0, 0) and an unset
  baseline; the fix at (0, 2) then adds 2000 m and calls the distance, fare and calorie
  observers.
\<close>

theorem second_session_first_fix_is_measured:
  "map_option total_distance (final_state (run second_session_start s_info)) = Some 0 \<and>
   map_option prev_latitude (final_state (run second_session_start s_info)) = Some 0 \<and>
   map_option prev_longitude (final_state (run second_session_start s_info)) = Some 0 \<and>
   map_option position_uninitiated (final_state (run second_session_start s_info))
     = Some False \<and>
   map_option accel_uninitiated (final_state (run second_session_start s_info))
     = Some True \<and>
   map_option total_distance (final_state (run second_session_first_fix s_info))
     = Some 2000 \<and>
   emitted (run second_session_first_fix s_info) =
     map_option (\<lambda>out. out @ [PositionChanged 2000, FareCountChanged 15,
                               CalorieCountChanged 1.208])
       (emitted (run second_session_start s_info))"
  by (simp add: scenario_defs code_defs)

subsection \<open>C2: what stop resets\<close>




subsection \<open>C3: the fare\<close>




subsection \<open>C4: the step rule\<close>



subsection \<open>C5: the accumulated distance\<close>




subsection \<open>C6: when a session is saved\<close>

text \<open>
  C6. At a stop in a state the module has reached, with the fare observer attached (the
  saving calls it first) and a narrowing to \<open>float\<close> that keeps 0: when the step count is 0
  or the distance as a \<open>float\<close> is 0, \<open>insertIntoDb\<close> is not called; when both are above 0,
  it is called once, with the distance and calories as \<open>float\<close>, the steps and the fare.
\<close>

theorem stop_writes_session_record:
  assumes "run evs s_info = Inr (s, out0)" and "fare_count_changed_callback s"
    and "double_to_float p 0 = 0"
  shows "\<exists>s' out. data_tracking_stop p s = Inr (s', out) \<and>
           (steps_count s = 0 \<or> double_to_float p (total_distance s) = 0 \<longrightarrow>
              filter is_insert out = []) \<and>
           (0 < sint (steps_count s) \<and> 0 < double_to_float p (total_distance s) \<longrightarrow>
              filter is_insert out =
                [InsertIntoDb (double_to_float p (total_distance s)) (steps_count s)
                   (double_to_float p (calories s)) (fare_amount p (total_distance s))])"
proof (cases "location_manager s")
  case True
  with assms(2) show ?thesis
    by (auto simp: data_tracking_stop_def data_distance_tracker_stop_def data_save_db_def
        count_fare_def Let_def)
next
  case False
  with reachable_manager_or_no_distance [OF assms(1)] have "total_distance s = 0" by simp
  with False assms(3) show ?thesis
    by (simp add: data_tracking_stop_def data_distance_tracker_stop_def)
qed

text \<open>A session of one step and 2000 m is saved; a session of 1000 m and no step is not.\<close>

theorem stop_writes_session_record_witness:
  "final_state (run walk_and_ride s_info) = Some walked_and_rode \<and>
   fare_count_changed_callback walked_and_rode \<and> double_to_float device 0 = 0 \<and>
   0 < sint (steps_count walked_and_rode) \<and>
   0 < double_to_float device (total_distance walked_and_rode) \<and>
   (\<exists>s' out. data_tracking_stop device walked_and_rode = Inr (s', out) \<and>
      filter is_insert out = [InsertIntoDb 2000 1 1.208 15]) \<and>
   final_state (run ride_without_steps s_info) = Some rode_without_steps \<and>
   fare_count_changed_callback rode_without_steps \<and>
   steps_count rode_without_steps = 0 \<and>
   (\<exists>s' out. data_tracking_stop device rode_without_steps = Inr (s', out) \<and>
      filter is_insert out = [])"
proof -
  obtain o1 where r1: "run walk_and_ride s_info = Inr (walked_and_rode, o1)"
    using walk_and_ride_reaches by (auto simp: final_state_def split: sum.splits)
  obtain o2 where r2: "run ride_without_steps s_info = Inr (rode_without_steps, o2)"
    using ride_without_steps_reaches by (auto simp: final_state_def split: sum.splits)
  have c1: "fare_count_changed_callback walked_and_rode"
    by (simp add: walked_and_rode_def)
  have c2: "fare_count_changed_callback rode_without_steps"
    by (simp add: rode_without_steps_def)
  have f: "double_to_float device 0 = 0" by (simp add: device_def exact_float_def)
  have v1: "0 < sint (steps_count walked_and_rode) \<and>
      0 < double_to_float device (total_distance walked_and_rode) \<and>
      double_to_float device (total_distance walked_and_rode) = 2000 \<and>
      steps_count walked_and_rode = 1 \<and>
      double_to_float device (calories walked_and_rode) = 1.208 \<and>
      fare_amount device (total_distance walked_and_rode) = 15"
    by (simp add: walked_and_rode_def device_def exact_float_def fare_amount_def
        double_to_int_def truncate_double_def)
  have v2: "steps_count rode_without_steps = 0" by (simp add: rode_without_steps_def)
  from stop_writes_session_record [OF r1 c1 f] v1
  have w1: "\<exists>s' out. data_tracking_stop device walked_and_rode = Inr (s', out) \<and>
      filter is_insert out = [InsertIntoDb 2000 1 1.208 15]"
    by auto
  from stop_writes_session_record [OF r2 c2 f] v2
  have w2: "\<exists>s' out. data_tracking_stop device rode_without_steps = Inr (s', out) \<and>
      filter is_insert out = []"
    by auto
  from w1 w2 walk_and_ride_reaches ride_without_steps_reaches c1 c2 f v1 v2
  show ?thesis by blast
qed

subsection \<open>C7: a failed distance computation\<close>

text \<open>
  C7. When the previous position is set and the platform reports an error for the
  distance, \<open>_pos_updated_cb\<close> returns the state as it was (distance and previous position
  among the rest) and calls no observer.
\<close>

theorem failed_distance_drops_event:
  assumes "\<not> position_uninitiated s"
    and "location_manager_get_distance p latitude longitude (prev_latitude s) (prev_longitude s)
           = None"
  shows "pos_updated_cb p latitude longitude s = Inr (s, [])"
  using assms by (simp add: pos_updated_cb_def)

text \<open>After the first fix, a fix whose distance the platform fails to compute.\<close>

theorem failed_distance_drops_event_witness:
  "\<not> position_uninitiated at_origin \<and>
   location_manager_get_distance device_distance_error 3 4
     (prev_latitude at_origin) (prev_longitude at_origin) = None \<and>
   pos_updated_cb device_distance_error 3 4 at_origin = Inr (at_origin, [])"
proof -
  have h1: "\<not> position_uninitiated at_origin"
    by (simp add: scenario_defs code_defs)
  have h2: "location_manager_get_distance device_distance_error 3 4
      (prev_latitude at_origin) (prev_longitude at_origin) = None"
    by (simp add: scenario_defs)
  from failed_distance_drops_event [OF h1 h2] h1 h2 show ?thesis by blast
qed

subsection \<open>C8: the counters do not decrease\<close>

text \<open>
  C8, as amended. A position event for which the platform's distance is not negative
  leaves the distance at least as large as before and the step count as it was. An
  acceleration event leaves the distance as it was and, while the step count is below
  2147483647, the largest \<open>int\<close>, the step count at least as large as before.
\<close>

theorem counters_non_decreasing:
  "(pos_updated_cb p latitude longitude s = Inr (s', out) \<and>
    (case location_manager_get_distance p latitude longitude
            (prev_latitude s) (prev_longitude s) of
       None \<Rightarrow> True | Some d \<Rightarrow> 0 \<le> d) \<longrightarrow>
      total_distance s \<le> total_distance s' \<and> steps_count s' = steps_count s) \<and>
   (sint (steps_count s) < 2147483647 \<longrightarrow>
      sint (steps_count s) \<le> sint (steps_count (fst (accel_cb x y z s))) \<and>
      total_distance (fst (accel_cb x y z s)) = total_distance s)"
proof (intro conjI impI)
  assume a: "pos_updated_cb p latitude longitude s = Inr (s', out) \<and>
    (case location_manager_get_distance p latitude longitude
            (prev_latitude s) (prev_longitude s) of
       None \<Rightarrow> True | Some d \<Rightarrow> 0 \<le> d)"
  then show "total_distance s \<le> total_distance s'"
    by (auto simp: pos_updated_cb_def count_fare_def calorieBurner_def Let_def
        split: if_splits option.splits)
  from a show "steps_count s' = steps_count s"
    by (auto simp: pos_updated_cb_def count_fare_def calorieBurner_def Let_def
        split: if_splits option.splits)
next
  assume "sint (steps_count s) < 2147483647"
  then show "sint (steps_count s) \<le> sint (steps_count (fst (accel_cb x y z s)))"
    by (simp add: accel_cb_def Let_def sint_increment_32)
next
  show "total_distance (fst (accel_cb x y z s)) = total_distance s"
    by (simp add: accel_cb_def Let_def)
qed

text \<open>A fix 2000 m away, and a sample that is a step, in the state \<open>walking\<close>.\<close>

theorem counters_non_decreasing_witness:
  "pos_updated_cb device 0 2 walking =
     Inr (walking\<lparr>total_distance := 2000, prev_latitude := 0, prev_longitude := 2,
            calories := 1.208\<rparr>,
          [PositionChanged 2000, FareCountChanged 15, CalorieCountChanged 1.208]) \<and>
   location_manager_get_distance device 0 2 (prev_latitude walking) (prev_longitude walking)
     = Some 2000 \<and>
   total_distance walking \<le> 2000 \<and>
   sint (steps_count walking) < 2147483647 \<and>
   sint (steps_count walking) \<le> sint (steps_count (fst (accel_cb 0.5 0.5 0.5 walking))) \<and>
   total_distance (fst (accel_cb 0.5 0.5 0.5 walking)) = total_distance walking"
proof -
  have h1: "pos_updated_cb device 0 2 walking =
     Inr (walking\<lparr>total_distance := 2000, prev_latitude := 0, prev_longitude := 2,
            calories := 1.208\<rparr>,
          [PositionChanged 2000, FareCountChanged 15, CalorieCountChanged 1.208])"
    by (simp add: scenario_defs code_defs)
  have h2: "location_manager_get_distance device 0 2
      (prev_latitude walking) (prev_longitude walking) = Some 2000"
    by (simp add: scenario_defs code_defs)
  have h3: "sint (steps_count walking) < 2147483647"
    by (simp add: scenario_defs code_defs)
  from counters_non_decreasing [of device 0 2 walking
      "walking\<lparr>total_distance := 2000, prev_latitude := 0, prev_longitude := 2,
         calories := 1.208\<rparr>"
      "[PositionChanged 2000, FareCountChanged 15, CalorieCountChanged 1.208]"
      "0.5" "0.5" "0.5"] h1 h2 h3
  show ?thesis by simp
qed

text \<open>
  The claim as stated fails at the largest \<open>int\<close>: with 2147483647 steps counted, the next
  step makes the count -2147483648.
\<close>

theorem steps_count_wraps:
  "sint (steps_count last_step) = 2147483647 \<and>
   sint (steps_count (fst (accel_cb 0 0 0 last_step))) = - 2147483648"
  by (simp add: scenario_defs code_defs)

subsection \<open>C9: what start reports\<close>

text \<open>
  C9, as amended. With the steps, distance and fare observers attached,
  \<open>data_tracking_start\<close> called with a step count of 0 reports, in this order, 0 steps, the
  distance accumulated so far (0 when nothing has been accumulated) and a fare of 0; with
  another step count it reports nothing. It leaves both counters as they were and sets the
  start time.
\<close>

theorem data_tracking_start_notifies:
  assumes "steps_count_changed_callback s" and "position_changed_callback s"
    and "fare_count_changed_callback s"
  shows "\<exists>s'. data_tracking_start p s =
           Inr (s', if steps_count s = 0
                    then [StepsCountChanged 0, PositionChanged (total_distance s),
                          FareCountChanged 0]
                    else []) \<and>
           total_distance s' = total_distance s \<and> steps_count s' = steps_count s \<and>
           start_time s' = ecore_time_get p"
  using assms
  by (simp add: data_tracking_start_def data_distance_tracker_start_def
      data_distance_tracker_init_def data_distance_tracker_destroy_def
      data_acceleration_sensor_start_def Let_def)

text \<open>A start with no step and 1000 m, and a start with one step.\<close>

theorem data_tracking_start_notifies_witness:
  "steps_count_changed_callback rode_without_steps \<and>
   position_changed_callback rode_without_steps \<and>
   fare_count_changed_callback rode_without_steps \<and>
   steps_count rode_without_steps = 0 \<and>
   (\<exists>s'. data_tracking_start device rode_without_steps =
      Inr (s', [StepsCountChanged 0, PositionChanged 1000, FareCountChanged 0])) \<and>
   steps_count_changed_callback walked_and_rode \<and>
   position_changed_callback walked_and_rode \<and>
   fare_count_changed_callback walked_and_rode \<and>
   steps_count walked_and_rode = 1 \<and>
   (\<exists>s'. data_tracking_start device walked_and_rode = Inr (s', []))"
proof -
  have a: "steps_count_changed_callback rode_without_steps"
    "position_changed_callback rode_without_steps"
    "fare_count_changed_callback rode_without_steps"
    by (simp_all add: rode_without_steps_def)
  have b: "steps_count_changed_callback walked_and_rode"
    "position_changed_callback walked_and_rode"
    "fare_count_changed_callback walked_and_rode"
    by (simp_all add: walked_and_rode_def)
  have v: "steps_count rode_without_steps = 0" "total_distance rode_without_steps = 1000"
    "steps_count walked_and_rode = 1"
    by (simp_all add: rode_without_steps_def walked_and_rode_def)
  from data_tracking_start_notifies [OF a, of device]
    data_tracking_start_notifies [OF b, of device] a b v
  show ?thesis by auto
qed

text \<open>
  The claim as stated fails when start is called during a ride without steps: after two
  fixes 1000 m apart the step count is 0, and the start reports a distance of 1000, not 0.
\<close>

theorem restart_emits_current_distance:
  "map_option steps_count (final_state (run ride_without_steps s_info)) = Some 0 \<and>
   map_option total_distance (final_state (run ride_without_steps s_info)) = Some 1000 \<and>
   emitted (run (ride_without_steps @ [(device, TrackingStart)]) s_info) =
     map_option (\<lambda>out. out @ [StepsCountChanged 0, PositionChanged 1000, FareCountChanged 0])
       (emitted (run ride_without_steps s_info))"
  by (simp add: scenario_defs code_defs)

subsection \<open>C10: the unset marker of the baseline\<close>

text \<open>
  C10, as amended. The marker for an unset baseline collides with real input: when the
  sample that seeds the baseline has an average within 0.0001 of 1000, the baseline still
  reads as unset, so the sample after it, whatever its values, is taken as the seeding
  sample again: baseline and previous average become its average, and no step is counted
  or reported.
\<close>

theorem sentinel_valued_baseline_recalibrates:
  assumes "accel_uninitiated s"
    and "\<bar>current_average x y z - MAX_ACCEL_INIT_VALUE\<bar> < DOUBLE_COMPARIZON_THRESHOLD"
  shows "accel_cb x' y' z' (fst (accel_cb x y z s)) =
           (s\<lparr>init_acc_av := current_average x' y' z',
              prev_acc_av := current_average x' y' z'\<rparr>, [])"
  using assms by (simp add: accel_cb_def accel_uninitiated_def Let_def)

text \<open>From the initial state: a sample of average 1000, then a sample of average 2.\<close>

theorem sentinel_valued_baseline_recalibrates_witness:
  "accel_uninitiated s_info \<and>
   \<bar>current_average 1000 1000 1000 - MAX_ACCEL_INIT_VALUE\<bar> < DOUBLE_COMPARIZON_THRESHOLD \<and>
   init_acc_av (fst (accel_cb 1000 1000 1000 s_info)) = 1000 \<and>
   accel_cb 2 2 2 (fst (accel_cb 1000 1000 1000 s_info)) =
     (s_info\<lparr>init_acc_av := 2, prev_acc_av := 2\<rparr>, [])"
proof -
  have h1: "accel_uninitiated s_info"
    by (simp add: code_defs)
  have h2: "\<bar>current_average 1000 1000 1000 - MAX_ACCEL_INIT_VALUE\<bar>
      < DOUBLE_COMPARIZON_THRESHOLD"
    by (simp add: code_defs)
  have h3: "init_acc_av (fst (accel_cb 1000 1000 1000 s_info)) = 1000"
    by (simp add: code_defs)
  from sentinel_valued_baseline_recalibrates [OF h1 h2, of 2 2 2] h1 h2 h3
  show ?thesis by (simp add: current_average_def)
qed

text \<open>
  The claim as stated fails for a sample of average 1000 in a session whose baseline was
  seeded with 9: the baseline stays 9, and only the previous average becomes 1000.
\<close>

theorem sample_near_sentinel_keeps_baseline:
  "map_option init_acc_av (final_state (run sample_at_sentinel s_info)) = Some 9 \<and>
   map_option prev_acc_av (final_state (run sample_at_sentinel s_info)) = Some 1000"
  by (simp add: scenario_defs code_defs)

end
